theory Spec2Isabelle
  imports Complex_Main
begin

section \<open>Smart Greenhouse: controller and environment model\<close>

text \<open>
  A shallow embedding of \<^verbatim>\<open>Smart_Green_House_Code/logic.py\<close> (the actuator
  controller \<^verbatim>\<open>GreenhouseLogic\<close>), \<^verbatim>\<open>simulator.py\<close> (the environment model
  \<^verbatim>\<open>EnvironmentModel\<close>) and \<^verbatim>\<open>physics.py\<close> (\<^verbatim>\<open>GreenhousePhysics\<close>).

  Conventions of the embedding:
  \<^item> Python \<^verbatim>\<open>float\<close> values are real numbers: rounding, infinities and NaN are
    not modelled.
  \<^item> A naive \<^verbatim>\<open>datetime\<close> is an integer count of microseconds from an epoch that
    falls on a midnight; the year range of Python's type is not modelled.
  \<^item> The dictionaries with a fixed key set (sensor values, targets, fault flags) are
    records; the action dictionary and \<^verbatim>\<open>_on_since\<close>, which the code indexes by a
    key passed as an argument, are total functions on the datatype of the eight keys.
  \<^item> Mutation of \<^verbatim>\<open>self\<close> is explicit state passing.
\<close>

subsection \<open>config.py\<close>

definition TEMP_BAND_C :: real where "TEMP_BAND_C = 2.0"
definition HUM_BAND_PCT :: real where "HUM_BAND_PCT = 6.0"
definition SOIL_BAND_PCT :: real where "SOIL_BAND_PCT = 2.5"
definition LIGHT_BAND_LUX :: real where "LIGHT_BAND_LUX = 60.0"

definition TEMP_HYST_C :: real where "TEMP_HYST_C = 0.7"
definition HUM_HYST_PCT :: real where "HUM_HYST_PCT = 3.0"

definition MIN_ON_VENT_SEC :: int where "MIN_ON_VENT_SEC = 15 * 60"
definition MIN_ON_WIN_SEC :: int where "MIN_ON_WIN_SEC = 15 * 60"
definition MIN_ON_WATER_SEC :: int where "MIN_ON_WATER_SEC = 12 * 60"
definition MIN_ON_MIST_SEC :: int where "MIN_ON_MIST_SEC = 10 * 60"
definition MIN_ON_LIGHT_SEC :: int where "MIN_ON_LIGHT_SEC = 10 * 60"

definition ALLOW_LIGHT_AT_NIGHT :: bool where "ALLOW_LIGHT_AT_NIGHT = True"

definition NATURAL_LIGHT_DAY_RANGE :: "real \<times> real" where
  "NATURAL_LIGHT_DAY_RANGE = (500.0, 650.0)"
definition NATURAL_LIGHT_NIGHT_RANGE :: "real \<times> real" where
  "NATURAL_LIGHT_NIGHT_RANGE = (120.0, 200.0)"
definition LAMP_LIGHT_TARGET_RANGE :: "real \<times> real" where
  "LAMP_LIGHT_TARGET_RANGE = (450.0, 520.0)"

definition RAIN_MM_WHEN_FORECAST :: real where "RAIN_MM_WHEN_FORECAST = 3.5"
definition MIN_NIGHT_TEMP_C :: real where "MIN_NIGHT_TEMP_C = 8.0"

definition HEATING_RATE_C_PER_HOUR :: real where "HEATING_RATE_C_PER_HOUR = 4.0"
definition WATER_SOIL_PCT_PER_HOUR :: real where "WATER_SOIL_PCT_PER_HOUR = 6.0"
definition MIST_HUM_PCT_PER_HOUR :: real where "MIST_HUM_PCT_PER_HOUR = 7.0"
definition VENT_LEAK_MULT :: real where "VENT_LEAK_MULT = 0.55"

subsection \<open>Time values\<close>

type_synonym datetime = int
type_synonym timedelta = int

definition dt_hour :: "datetime \<Rightarrow> int" where
  "dt_hour t = (t div 3600000000) mod 24"

definition dt_minute :: "datetime \<Rightarrow> int" where
  "dt_minute t = (t div 60000000) mod 60"

definition dt_second :: "datetime \<Rightarrow> int" where
  "dt_second t = (t div 1000000) mod 60"

definition total_seconds :: "timedelta \<Rightarrow> real" where
  "total_seconds d = real_of_int d / 1000000"

definition at_clock :: "int \<Rightarrow> int \<Rightarrow> int \<Rightarrow> int \<Rightarrow> datetime" where
  \<comment> \<open>the datetime of day \<open>d\<close> after the epoch at \<open>h:m:s\<close>\<close>
  "at_clock d h m s = (((d * 24 + h) * 60 + m) * 60 + s) * 1000000"

definition timedelta_hours :: "real \<Rightarrow> timedelta" where
  \<comment> \<open>\<^verbatim>\<open>dt.timedelta(hours=h)\<close>: microseconds, rounded half to even\<close>
  "timedelta_hours h =
     (let x = h * 3600000000; f = \<lfloor>x\<rfloor>
      in if x - real_of_int f < 1 / 2 then f
         else if x - real_of_int f > 1 / 2 then f + 1
         else if even f then f else f + 1)"

definition timedelta_minutes :: "int \<Rightarrow> timedelta" where
  "timedelta_minutes m = m * 60000000"

subsection \<open>Data of the controller and of the environment model\<close>

record sensor_values =
  temp :: real
  humidity :: real
  light :: real
  soil :: real
  rain :: real

record targets =
  temp_target :: real
  hum_target :: real
  light_min :: real
  soil_min :: real

record faults =
  fan_fault :: bool
  pump_fault :: bool
  mister_fault :: bool

datatype act_key =
  Heating | Ventilation | Windows | Watering | Misting | Lighting | RainProtection | Alarm

type_synonym actions = "act_key \<Rightarrow> bool"
type_synonym on_since_map = "act_key \<Rightarrow> datetime option"

definition blank_actions :: actions where
  "blank_actions = (\<lambda>k. False)"

text \<open>
  Each value of \<open>reason\<close> stands for one of the reason strings that \<^verbatim>\<open>compute\<close>
  appends; the formatted numbers of the f-strings are kept as arguments. Every such
  string contains literal text, so none is empty.
\<close>

datatype reason =
    Temp_low real real
  | Temp_high real real
  | Humidity_high real real
  | Rain_close_windows
  | Soil_low real real
  | Humidity_low real real
  | Light_low real real
  | Fault_hint string

subsection \<open>logic.py: GreenhouseLogic\<close>

record logic_state =
  self_actions :: actions
  self_on_since :: on_since_map

definition logic_init :: logic_state where
  "logic_init = \<lparr>self_actions = blank_actions, self_on_since = (\<lambda>k. None)\<rparr>"

definition is_night :: "datetime \<Rightarrow> bool" where
  "is_night now = (dt_hour now \<ge> 20 \<or> dt_hour now < 6)"

definition min_on_ok :: "on_since_map \<Rightarrow> act_key \<Rightarrow> datetime \<Rightarrow> int \<Rightarrow> bool" where
  "min_on_ok ons key now min_sec =
     (case ons key of
        None \<Rightarrow> True
      | Some started \<Rightarrow> total_seconds (now - started) \<ge> real_of_int min_sec)"

text \<open>
  The local variables of \<^verbatim>\<open>compute\<close> that its sections update: the copy \<^verbatim>\<open>act\<close>
  of the actions, \<^verbatim>\<open>self._on_since\<close> and the list \<^verbatim>\<open>reasons\<close>.
\<close>

record cvars =
  act :: actions
  ons :: on_since_map
  reasons :: "reason list"

definition set_act :: "actions \<Rightarrow> act_key \<Rightarrow> bool \<Rightarrow> datetime \<Rightarrow> cvars \<Rightarrow> cvars" where
  \<comment> \<open>\<open>prev_actions\<close> is \<^verbatim>\<open>self.actions\<close>, which \<^verbatim>\<open>compute\<close> replaces only at its end\<close>
  "set_act prev_actions key val now c =
     (let prev = prev_actions key;
          c1 = c\<lparr>act := (act c)(key := val)\<rparr>;
          c2 = (if val \<and> \<not> prev then c1\<lparr>ons := (ons c1)(key := Some now)\<rparr> else c1);
          c3 = (if (\<not> val) \<and> prev then c2\<lparr>ons := (ons c2)(key := None)\<rparr> else c2)
      in c3)"

definition add_reason :: "reason \<Rightarrow> cvars \<Rightarrow> cvars" where
  "add_reason r c = c\<lparr>reasons := reasons c @ [r]\<rparr>"

definition want_vent :: "sensor_values \<Rightarrow> targets \<Rightarrow> bool" where
  "want_vent v tg =
     ((temp v > temp_target tg + TEMP_BAND_C) \<or> (humidity v > hum_target tg + HUM_BAND_PCT))"

definition heating_rule :: "sensor_values \<Rightarrow> targets \<Rightarrow> cvars \<Rightarrow> cvars" where
  "heating_rule v tg c =
     (let heat_on = act c Heating;
          t_tgt = temp_target tg
      in if temp v < t_tgt - TEMP_BAND_C
         then (add_reason (Temp_low (temp v) (t_tgt - TEMP_BAND_C)) c)
                \<lparr>act := (act c)(Heating := True)\<rparr>
         else if temp v \<ge> t_tgt + TEMP_HYST_C
         then c\<lparr>act := (act c)(Heating := False)\<rparr>
         else c\<lparr>act := (act c)(Heating := heat_on)\<rparr>)"

definition ventilation_rule ::
  "actions \<Rightarrow> sensor_values \<Rightarrow> targets \<Rightarrow> datetime \<Rightarrow> cvars \<Rightarrow> cvars" where
  "ventilation_rule prev_actions v tg now c =
     (let vent_on = act c Ventilation;
          t_tgt = temp_target tg;
          h_tgt = hum_target tg
      in if want_vent v tg
         then
           (let c1 = (if temp v > t_tgt + TEMP_BAND_C
                      then add_reason (Temp_high (temp v) (t_tgt + TEMP_BAND_C)) c else c);
                c2 = (if humidity v > h_tgt + HUM_BAND_PCT
                      then add_reason (Humidity_high (humidity v) (h_tgt + HUM_BAND_PCT)) c1
                      else c1)
            in set_act prev_actions Ventilation True now c2)
         else
           (let ok_temp = (temp v \<le> t_tgt + TEMP_BAND_C - TEMP_HYST_C);
                ok_hum = (humidity v \<le> h_tgt + HUM_BAND_PCT - HUM_HYST_PCT)
            in if ok_temp \<and> ok_hum \<and> min_on_ok (ons c) Ventilation now MIN_ON_VENT_SEC
               then set_act prev_actions Ventilation False now c
               else set_act prev_actions Ventilation vent_on now c))"

definition windows_rule ::
  "actions \<Rightarrow> sensor_values \<Rightarrow> targets \<Rightarrow> bool \<Rightarrow> datetime \<Rightarrow> cvars \<Rightarrow> cvars" where
  "windows_rule prev_actions v tg rain_forecast now c =
     (let win_on = act c Windows;
          t_tgt = temp_target tg;
          h_tgt = hum_target tg
      in if rain_forecast
         then
           (let c1 = c\<lparr>act := (act c)(RainProtection := True)\<rparr>;
                win_on1 = (if win_on \<and> min_on_ok (ons c1) Windows now MIN_ON_WIN_SEC
                           then False else False);
                c2 = add_reason Rain_close_windows c1
            in set_act prev_actions Windows win_on1 now c2)
         else
           (let c1 = c\<lparr>act := (act c)(RainProtection := False)\<rparr>;
                want_open = want_vent v tg
            in if want_open
               then set_act prev_actions Windows True now c1
               else
                 (let ok_temp = (temp v \<le> t_tgt + TEMP_BAND_C - TEMP_HYST_C);
                      ok_hum = (humidity v \<le> h_tgt + HUM_BAND_PCT - HUM_HYST_PCT)
                  in if ok_temp \<and> ok_hum \<and> min_on_ok (ons c1) Windows now MIN_ON_WIN_SEC
                     then set_act prev_actions Windows False now c1
                     else set_act prev_actions Windows win_on now c1)))"

definition night_policy ::
  "actions \<Rightarrow> sensor_values \<Rightarrow> targets \<Rightarrow> datetime \<Rightarrow> cvars \<Rightarrow> cvars" where
  "night_policy prev_actions v tg now c =
     (if is_night now \<and> \<not> want_vent v tg
      then
        (let c1 = (if min_on_ok (ons c) Ventilation now MIN_ON_VENT_SEC
                   then set_act prev_actions Ventilation False now c else c);
             c2 = (if min_on_ok (ons c1) Windows now MIN_ON_WIN_SEC
                   then set_act prev_actions Windows False now c1 else c1)
         in c2)
      else c)"

definition watering_rule ::
  "actions \<Rightarrow> sensor_values \<Rightarrow> targets \<Rightarrow> datetime \<Rightarrow> cvars \<Rightarrow> cvars" where
  "watering_rule prev_actions v tg now c =
     (let water_on = act c Watering;
          s_min = soil_min tg
      in if soil v < s_min
         then set_act prev_actions Watering True now (add_reason (Soil_low (soil v) s_min) c)
         else if soil v \<ge> s_min + SOIL_BAND_PCT
                 \<and> min_on_ok (ons c) Watering now MIN_ON_WATER_SEC
         then set_act prev_actions Watering False now c
         else set_act prev_actions Watering water_on now c)"

definition misting_rule ::
  "actions \<Rightarrow> sensor_values \<Rightarrow> targets \<Rightarrow> datetime \<Rightarrow> cvars \<Rightarrow> cvars" where
  "misting_rule prev_actions v tg now c =
     (let mist_on = act c Misting;
          low_thr = hum_target tg - HUM_BAND_PCT
      in if humidity v < low_thr
         then set_act prev_actions Misting True now
                (add_reason (Humidity_low (humidity v) low_thr) c)
         else if humidity v \<ge> low_thr + HUM_HYST_PCT
                 \<and> min_on_ok (ons c) Misting now MIN_ON_MIST_SEC
         then set_act prev_actions Misting False now c
         else set_act prev_actions Misting mist_on now c)"

definition lighting_rule ::
  "actions \<Rightarrow> sensor_values \<Rightarrow> targets \<Rightarrow> datetime \<Rightarrow> cvars \<Rightarrow> cvars" where
  "lighting_rule prev_actions v tg now c =
     (let light_on = act c Lighting;
          l_min = light_min tg;
          allow_now = ((\<not> is_night now) \<or> ALLOW_LIGHT_AT_NIGHT)
      in if allow_now \<and> light v < l_min
         then set_act prev_actions Lighting True now (add_reason (Light_low (light v) l_min) c)
         else if light v \<ge> l_min + LIGHT_BAND_LUX
                 \<and> min_on_ok (ons c) Lighting now MIN_ON_LIGHT_SEC
         then set_act prev_actions Lighting False now c
         else set_act prev_actions Lighting light_on now c)"

definition fault_hints :: "faults \<Rightarrow> cvars \<Rightarrow> cvars" where
  "fault_hints f c =
     (let c1 = (if fan_fault f then add_reason (Fault_hint ''FAULT: fan_fault'') c else c);
          c2 = (if pump_fault f then add_reason (Fault_hint ''FAULT: pump_fault'') c1 else c1);
          c3 = (if mister_fault f then add_reason (Fault_hint ''FAULT: mister_fault'') c2 else c2)
      in c3)"

definition alarm_rule :: "cvars \<Rightarrow> cvars" where
  "alarm_rule c = c\<lparr>act := (act c)(Alarm := (reasons c \<noteq> []))\<rparr>"

definition compute_vars ::
  "logic_state \<Rightarrow> sensor_values \<Rightarrow> targets \<Rightarrow> bool \<Rightarrow> faults \<Rightarrow> datetime \<Rightarrow> cvars" where
  "compute_vars s v tg rain_forecast f now =
     (let p = self_actions s;
          c0 = \<lparr>act = self_actions s, ons = self_on_since s, reasons = []\<rparr>;
          c1 = heating_rule v tg c0;
          c2 = ventilation_rule p v tg now c1;
          c3 = windows_rule p v tg rain_forecast now c2;
          c4 = night_policy p v tg now c3;
          c5 = watering_rule p v tg now c4;
          c6 = misting_rule p v tg now c5;
          c7 = lighting_rule p v tg now c6;
          c8 = fault_hints f c7
      in alarm_rule c8)"

definition compute ::
  "logic_state \<Rightarrow> sensor_values \<Rightarrow> targets \<Rightarrow> bool \<Rightarrow> faults \<Rightarrow> datetime
     \<Rightarrow> (actions \<times> reason list) \<times> logic_state" where
  \<comment> \<open>the returned pair \<^verbatim>\<open>(act, reasons)\<close> and the controller after the call\<close>
  "compute s v tg rain_forecast f now =
     (let c = compute_vars s v tg rain_forecast f now
      in ((act c, reasons c), \<lparr>self_actions = act c, self_on_since = ons c\<rparr>))"

text \<open>
  The tick loop of \<^verbatim>\<open>gui.py\<close> calls \<^verbatim>\<open>compute\<close> once per tick on the same
  controller. \<open>tick_input\<close> holds the arguments of one call, \<open>compute_step\<close> is the
  controller after the call, and \<open>compute_seq\<close> the controller after a sequence of
  calls.
\<close>

record tick_input =
  in_values :: sensor_values
  in_targets :: targets
  in_rain_forecast :: bool
  in_faults :: faults
  in_now :: datetime

definition compute_step :: "logic_state \<Rightarrow> tick_input \<Rightarrow> logic_state" where
  "compute_step s i =
     snd (compute s (in_values i) (in_targets i) (in_rain_forecast i) (in_faults i) (in_now i))"

fun compute_seq :: "logic_state \<Rightarrow> tick_input list \<Rightarrow> logic_state" where
  "compute_seq s [] = s"
| "compute_seq s (i # ins) = compute_seq (compute_step s i) ins"

definition min_on_sec :: "act_key \<Rightarrow> int" where
  \<comment> \<open>the minimum ON time that \<^verbatim>\<open>compute\<close> passes to \<^verbatim>\<open>_min_on_ok\<close> for each key
      it calls it with; the other keys have none\<close>
  "min_on_sec k =
     (case k of
        Ventilation \<Rightarrow> MIN_ON_VENT_SEC
      | Windows \<Rightarrow> MIN_ON_WIN_SEC
      | Watering \<Rightarrow> MIN_ON_WATER_SEC
      | Misting \<Rightarrow> MIN_ON_MIST_SEC
      | Lighting \<Rightarrow> MIN_ON_LIGHT_SEC
      | _ \<Rightarrow> 0)"

subsection \<open>simulator.py: EnvironmentModel\<close>

definition SEASON_SUN :: "(string \<times> (real \<times> real)) list" where
  "SEASON_SUN =
     [(''WINTER'', (7.5, 17.0)),
      (''SPRING'', (6.5, 19.5)),
      (''SUMMER'', (5.75, 20.75)),
      (''FALL'', (7.0, 18.5))]"

definition CITY_SEASON_OUTSIDE :: "(string \<times> (string \<times> (real \<times> real)) list) list" where
  "CITY_SEASON_OUTSIDE =
     [(''Ruse'', [(''WINTER'', (1.5, 75.0)), (''SPRING'', (15.0, 65.0)),
                  (''SUMMER'', (33.0, 50.0)), (''FALL'', (16.0, 65.0))]),
      (''Varna'', [(''WINTER'', (5.5, 78.0)), (''SPRING'', (16.0, 70.0)),
                   (''SUMMER'', (30.0, 55.0)), (''FALL'', (18.0, 70.0))]),
      (''Burgas'', [(''WINTER'', (5.5, 80.0)), (''SPRING'', (16.0, 70.0)),
                    (''SUMMER'', (31.0, 55.0)), (''FALL'', (18.0, 70.0))]),
      (''Sofia'', [(''WINTER'', (0.5, 70.0)), (''SPRING'', (14.0, 60.0)),
                   (''SUMMER'', (32.0, 45.0)), (''FALL'', (15.0, 60.0))]),
      (''Plovdiv'', [(''WINTER'', (3.0, 70.0)), (''SPRING'', (16.0, 60.0)),
                     (''SUMMER'', (35.0, 45.0)), (''FALL'', (17.0, 60.0))])]"

definition clamp :: "real \<Rightarrow> real \<Rightarrow> real \<Rightarrow> real" where
  "clamp x a b = max a (min b x)"

definition hour_of_day :: "datetime \<Rightarrow> real" where
  "hour_of_day t =
     real_of_int (dt_hour t) + real_of_int (dt_minute t) / 60.0
       + real_of_int (dt_second t) / 3600.0"

definition lerp :: "real \<Rightarrow> real \<Rightarrow> real \<Rightarrow> real" where
  "lerp a b k = a + (b - a) * k"

definition season_sun :: "string \<Rightarrow> real \<times> real" where
  \<comment> \<open>\<^verbatim>\<open>SEASON_SUN.get(season, (7.5, 17.0))\<close>\<close>
  "season_sun season =
     (case map_of SEASON_SUN season of None \<Rightarrow> (7.5, 17.0) | Some p \<Rightarrow> p)"

definition natural_light_lux :: "string \<Rightarrow> datetime \<Rightarrow> real" where
  "natural_light_lux season t =
     (let sunrise = fst (season_sun season);
          sunset = snd (season_sun season);
          h = hour_of_day t
      in if h < sunrise \<or> h > sunset
         then lerp (fst NATURAL_LIGHT_NIGHT_RANGE) (snd NATURAL_LIGHT_NIGHT_RANGE) 0.5
         else
           (let day_len = max 0.1 (sunset - sunrise);
                x = (h - sunrise) / day_len;
                y = sin (pi * x);
                peak = lerp (fst NATURAL_LIGHT_DAY_RANGE) (snd NATURAL_LIGHT_DAY_RANGE) 0.75
            in lerp 260.0 peak y))"

record env_model =
  m_faults :: faults
  active_anomaly :: string
  anomaly_until :: "datetime option"

definition env_init :: env_model where
  "env_init =
     \<lparr>m_faults = \<lparr>fan_fault = False, pump_fault = False, mister_fault = False\<rparr>,
      active_anomaly = ''NORMAL'', anomaly_until = None\<rparr>"

definition set_anomaly :: "env_model \<Rightarrow> string \<Rightarrow> datetime \<Rightarrow> real \<Rightarrow> env_model" where
  "set_anomaly m name now duration_hours =
     m\<lparr>active_anomaly := name,
       anomaly_until := Some (now + timedelta_hours duration_hours)\<rparr>"

definition clear_anomaly :: "env_model \<Rightarrow> env_model" where
  "clear_anomaly m = m\<lparr>active_anomaly := ''NORMAL'', anomaly_until := None\<rparr>"

definition anomaly_active :: "env_model \<Rightarrow> datetime \<Rightarrow> bool" where
  "anomaly_active m now =
     (active_anomaly m \<noteq> ''NORMAL''
      \<and> (case anomaly_until m of None \<Rightarrow> False | Some u \<Rightarrow> now \<le> u))"

definition city_season_outside :: "string \<Rightarrow> string \<Rightarrow> real \<times> real" where
  \<comment> \<open>\<^verbatim>\<open>CITY_SEASON_OUTSIDE.get(city, {}).get(season, (10.0, 65.0))\<close>\<close>
  "city_season_outside city season =
     (case map_of CITY_SEASON_OUTSIDE city of
        None \<Rightarrow> (10.0, 65.0)
      | Some by_season \<Rightarrow>
          (case map_of by_season season of None \<Rightarrow> (10.0, 65.0) | Some p \<Rightarrow> p))"

definition outside :: "string \<Rightarrow> string \<Rightarrow> datetime \<Rightarrow> real \<times> real" where
  "outside city season now =
     (let base_t = fst (city_season_outside city season);
          base_h = snd (city_season_outside city season);
          h = hour_of_day now;
          swing = sin ((h - 6.0) / 24.0 * 2 * pi);
          out_t = base_t + 3.2 * swing;
          out_h = clamp (base_h - 7.0 * swing) 25.0 95.0
      in (out_t, out_h))"

text \<open>
  The local variables of \<^verbatim>\<open>apply_tick\<close>, with \<^verbatim>\<open>self.faults\<close>, which the
  fault anomalies set.
\<close>

record tvars =
  v_temp :: real
  v_hum :: real
  v_lux :: real
  v_soil :: real
  v_rain :: real
  out_t :: real
  out_h :: real
  nat_lux :: real
  v_notes :: "string \<rightharpoonup> string"
  flt :: faults

definition auto_clear :: "env_model \<Rightarrow> datetime \<Rightarrow> env_model" where
  "auto_clear m now =
     (if active_anomaly m \<noteq> ''NORMAL''
         \<and> (case anomaly_until m of None \<Rightarrow> True | Some u \<Rightarrow> now > u)
      then clear_anomaly m else m)"

definition forecast_indicator :: "bool \<Rightarrow> tvars \<Rightarrow> tvars" where
  "forecast_indicator rain_forecast tv =
     tv\<lparr>v_rain := (if rain_forecast then RAIN_MM_WHEN_FORECAST else 0.0)\<rparr>"

definition anomalies :: "env_model \<Rightarrow> datetime \<Rightarrow> real \<Rightarrow> tvars \<Rightarrow> tvars" where
  "anomalies m now dt_hours tv =
     (if anomaly_active m now
      then
        (let a = active_anomaly m
         in if a = ''DRY_AIR''
            then tv\<lparr>v_hum := v_hum tv + (28.0 - v_hum tv) * clamp (0.30 * dt_hours) 0.0 0.6,
                    v_notes := (v_notes tv)(''anomaly'' \<mapsto> ''Dry air event'')\<rparr>
            else if a = ''HUMID_AIR''
            then tv\<lparr>v_hum := v_hum tv + (85.0 - v_hum tv) * clamp (0.22 * dt_hours) 0.0 0.5,
                    v_notes := (v_notes tv)(''anomaly'' \<mapsto> ''Humid air event'')\<rparr>
            else if a = ''LOW_LIGHT''
            then tv\<lparr>nat_lux := nat_lux tv * 0.45,
                    v_notes := (v_notes tv)(''anomaly'' \<mapsto> ''Low light (clouds)'')\<rparr>
            else if a = ''HEAT_WAVE''
            then tv\<lparr>out_t := out_t tv + 8.0,
                    v_notes := (v_notes tv)(''anomaly'' \<mapsto> ''Heat wave'')\<rparr>
            else if a = ''COLD_SNAP''
            then tv\<lparr>out_t := out_t tv - 10.0,
                    v_notes := (v_notes tv)(''anomaly'' \<mapsto> ''Cold snap'')\<rparr>
            else if a = ''DRY_SOIL''
            then tv\<lparr>v_soil := v_soil tv + (22.0 - v_soil tv) * clamp (0.22 * dt_hours) 0.0 0.5,
                    v_notes := (v_notes tv)(''anomaly'' \<mapsto> ''Dry soil event'')\<rparr>
            else if a = ''RAIN_FORECAST''
            then tv\<lparr>v_rain := RAIN_MM_WHEN_FORECAST,
                    v_notes := (v_notes tv)(''anomaly'' \<mapsto> ''Storm forecast'')\<rparr>
            else if a = ''FAN_FAULT''
            then tv\<lparr>flt := (flt tv)\<lparr>fan_fault := True\<rparr>,
                    v_notes := (v_notes tv)(''anomaly'' \<mapsto> ''Fan fault injected'')\<rparr>
            else if a = ''PUMP_FAULT''
            then tv\<lparr>flt := (flt tv)\<lparr>pump_fault := True\<rparr>,
                    v_notes := (v_notes tv)(''anomaly'' \<mapsto> ''Pump fault injected'')\<rparr>
            else if a = ''MISTER_FAULT''
            then tv\<lparr>flt := (flt tv)\<lparr>mister_fault := True\<rparr>,
                    v_notes := (v_notes tv)(''anomaly'' \<mapsto> ''Mister fault injected'')\<rparr>
            else tv)
      else tv)"

definition leakage :: "real \<Rightarrow> tvars \<Rightarrow> tvars" where
  "leakage dt_hours tv =
     (let leak_k = clamp (0.06 * dt_hours) 0.0 0.12;
          tv1 = tv\<lparr>v_temp := v_temp tv + (out_t tv - v_temp tv) * leak_k\<rparr>
      in tv1\<lparr>v_hum := v_hum tv1 + (out_h tv1 - v_hum tv1) * clamp (0.04 * dt_hours) 0.0 0.10\<rparr>)"

definition night_floor :: "datetime \<Rightarrow> tvars \<Rightarrow> tvars" where
  "night_floor now tv =
     (let is_night = (dt_hour now \<ge> 20 \<or> dt_hour now < 6)
      in if is_night then tv\<lparr>v_temp := max (v_temp tv) MIN_NIGHT_TEMP_C\<rparr> else tv)"

definition light_convergence :: "real \<Rightarrow> tvars \<Rightarrow> tvars" where
  "light_convergence dt_hours tv =
     tv\<lparr>v_lux := v_lux tv + (nat_lux tv - v_lux tv) * clamp (0.65 * dt_hours) 0.0 0.85\<rparr>"

definition soil_dries :: "real \<Rightarrow> tvars \<Rightarrow> tvars" where
  "soil_dries dt_hours tv =
     (let tv1 = tv\<lparr>v_soil := v_soil tv + (v_soil tv - 0.8) * (- 0.015 * dt_hours)\<rparr>
      in tv1\<lparr>v_soil := clamp (v_soil tv1) 0.0 100.0\<rparr>)"

definition heating_effect :: "actions \<Rightarrow> real \<Rightarrow> tvars \<Rightarrow> tvars" where
  "heating_effect actions dt_hours tv =
     (if actions Heating
      then tv\<lparr>v_temp := v_temp tv + clamp (HEATING_RATE_C_PER_HOUR * dt_hours) 0.0 6.0,
              v_notes := (v_notes tv)(''Heating'' \<mapsto> ''Heating ON'')\<rparr>
      else tv)"

definition vent_effect :: "actions \<Rightarrow> real \<Rightarrow> tvars \<Rightarrow> tvars" where
  "vent_effect actions dt_hours tv =
     (if actions Ventilation \<or> actions Windows
      then
        (let vent_eff0 = (if actions Windows then 0.55 else 0.40);
             faulty = (fan_fault (flt tv) \<and> actions Ventilation);
             vent_eff = (if faulty then vent_eff0 * 0.25 else vent_eff0);
             tv1 = (if faulty
                    then tv\<lparr>v_notes := (v_notes tv)(''Ventilation'' \<mapsto> ''Fan fault reduces effect'')\<rparr>
                    else tv);
             k = clamp ((vent_eff * VENT_LEAK_MULT) * dt_hours) 0.0 0.75;
             tv2 = tv1\<lparr>v_temp := v_temp tv1 + (out_t tv1 - v_temp tv1) * k\<rparr>
         in tv2\<lparr>v_hum := v_hum tv2 + (out_h tv2 - v_hum tv2) * clamp (0.75 * k) 0.0 0.75\<rparr>)
      else tv)"

definition watering_effect :: "actions \<Rightarrow> real \<Rightarrow> tvars \<Rightarrow> tvars" where
  "watering_effect actions dt_hours tv =
     (if actions Watering
      then
        (let inc0 = WATER_SOIL_PCT_PER_HOUR * dt_hours;
             inc = (if pump_fault (flt tv) then inc0 * 0.25 else inc0);
             tv1 = (if pump_fault (flt tv)
                    then tv\<lparr>v_notes := (v_notes tv)(''Watering'' \<mapsto> ''Pump fault limits flow'')\<rparr>
                    else tv);
             tv2 = tv1\<lparr>v_soil := clamp (v_soil tv1 + inc) 0.0 100.0\<rparr>
         in tv2\<lparr>v_hum := clamp (v_hum tv2 + 0.8 * dt_hours) 5.0 98.0\<rparr>)
      else tv)"

definition misting_effect :: "actions \<Rightarrow> real \<Rightarrow> tvars \<Rightarrow> tvars" where
  "misting_effect actions dt_hours tv =
     (if actions Misting
      then
        (let inc0 = MIST_HUM_PCT_PER_HOUR * dt_hours;
             inc = (if mister_fault (flt tv) then inc0 * 0.25 else inc0);
             tv1 = (if mister_fault (flt tv)
                    then tv\<lparr>v_notes := (v_notes tv)(''Misting'' \<mapsto> ''Mister fault limits spray'')\<rparr>
                    else tv);
             tv2 = tv1\<lparr>v_hum := clamp (v_hum tv1 + inc) 5.0 98.0\<rparr>
         in tv2\<lparr>v_temp := v_temp tv2 - 0.25 * dt_hours\<rparr>)
      else tv)"

definition lighting_effect :: "actions \<Rightarrow> real \<Rightarrow> tvars \<Rightarrow> tvars" where
  "lighting_effect actions dt_hours tv =
     (if actions Lighting
      then
        (let lamp_target = lerp (fst LAMP_LIGHT_TARGET_RANGE) (snd LAMP_LIGHT_TARGET_RANGE) 0.6
         in tv\<lparr>v_lux := v_lux tv
                   + (lamp_target - v_lux tv) * clamp (0.35 * (dt_hours / 0.25)) 0.0 0.7\<rparr>)
      else tv)"

definition final_clamp :: "tvars \<Rightarrow> tvars" where
  "final_clamp tv =
     tv\<lparr>v_temp := clamp (v_temp tv) (- 20.0) 60.0,
        v_hum := clamp (v_hum tv) 5.0 98.0,
        v_lux := clamp (v_lux tv) 0.0 2000.0\<rparr>"

definition tick_dt_hours :: "int \<Rightarrow> real" where
  "tick_dt_hours minutes_per_tick = max 0.01 (real_of_int minutes_per_tick / 60.0)"

definition apply_tick_vars ::
  "env_model \<Rightarrow> sensor_values \<Rightarrow> actions \<Rightarrow> string \<Rightarrow> string \<Rightarrow> datetime \<Rightarrow> int \<Rightarrow> bool
     \<Rightarrow> tvars" where
  "apply_tick_vars m vals actions city_code season_code now minutes_per_tick rain_forecast =
     (let dt_hours = tick_dt_hours minutes_per_tick;
          m1 = auto_clear m now;
          tv0 = \<lparr>v_temp = temp vals, v_hum = humidity vals, v_lux = light vals,
                 v_soil = soil vals, v_rain = rain vals,
                 out_t = fst (outside city_code season_code now),
                 out_h = snd (outside city_code season_code now),
                 nat_lux = natural_light_lux season_code now,
                 v_notes = Map.empty, flt = m_faults m1\<rparr>;
          tv1 = forecast_indicator rain_forecast tv0;
          tv2 = anomalies m1 now dt_hours tv1;
          tv3 = leakage dt_hours tv2;
          tv4 = night_floor now tv3;
          tv5 = light_convergence dt_hours tv4;
          tv6 = soil_dries dt_hours tv5;
          tv7 = heating_effect actions dt_hours tv6;
          tv8 = vent_effect actions dt_hours tv7;
          tv9 = watering_effect actions dt_hours tv8;
          tv10 = misting_effect actions dt_hours tv9;
          tv11 = lighting_effect actions dt_hours tv10
      in final_clamp tv11)"

definition apply_tick ::
  "env_model \<Rightarrow> sensor_values \<Rightarrow> actions \<Rightarrow> string \<Rightarrow> string \<Rightarrow> datetime \<Rightarrow> int \<Rightarrow> bool
     \<Rightarrow> (sensor_values \<times> (string \<rightharpoonup> string)) \<times> env_model" where
  \<comment> \<open>the returned pair of the new values and the notes, and the model after the call\<close>
  "apply_tick m vals actions city_code season_code now minutes_per_tick rain_forecast =
     (let tv = apply_tick_vars m vals actions city_code season_code now minutes_per_tick
                 rain_forecast
      in ((\<lparr>temp = v_temp tv, humidity = v_hum tv, light = v_lux tv,
             soil = v_soil tv, rain = v_rain tv\<rparr>, v_notes tv),
          (auto_clear m now)\<lparr>m_faults := flt tv\<rparr>))"

subsection \<open>physics.py: GreenhousePhysics\<close>

text \<open>
  \<^verbatim>\<open>physics.py\<close> imports seven constants that the \<^verbatim>\<open>config.py\<close> beside it does
  not define; they are the fields of \<open>physics_config\<close>. The four numbers that
  \<^verbatim>\<open>random.uniform\<close> draws in one call of \<^verbatim>\<open>step\<close> are the fields of
  \<open>noise\<close>. The state dictionary is read with \<^verbatim>\<open>v.get("rain", 0.0)\<close>, so its
  rain entry may be absent.
\<close>

record physics_config =
  HEAT_RATE_C_PER_MIN :: real
  VENT_COOL_RATE_C_PER_MIN :: real
  WATER_SOIL_RATE_PER_MIN :: real
  MIST_HUM_RATE_PER_MIN :: real
  VENT_HUM_DROP_PER_MIN :: real
  LAMP_LUX_RATE_PER_MIN :: real
  LIGHT_MIN :: real

record ambient =
  amb_temp :: real
  amb_humidity :: real
  light_day :: real
  light_night :: real
  is_day :: bool

record phys_state =
  p_temp :: real
  p_humidity :: real
  p_light :: real
  p_soil :: real
  p_rain :: "real option"

record noise =
  noise_temp :: real
  noise_humidity :: real
  noise_light :: real
  noise_soil :: real

definition phys_drift :: "ambient \<Rightarrow> real \<Rightarrow> phys_state \<Rightarrow> phys_state" where
  \<comment> \<open>drift toward ambient, and the soil drying; the four fields are independent\<close>
  "phys_drift amb dt_min v =
     (let amb_light = (if is_day amb then light_day amb else light_night amb)
      in v\<lparr>p_temp := p_temp v + (amb_temp amb - p_temp v) * (0.01 * dt_min),
           p_humidity := p_humidity v + (amb_humidity amb - p_humidity v) * (0.01 * dt_min),
           p_light := p_light v + (amb_light - p_light v) * (0.03 * dt_min),
           p_soil := p_soil v - 0.02 * dt_min\<rparr>)"

definition phys_heating :: "physics_config \<Rightarrow> actions \<Rightarrow> real \<Rightarrow> phys_state \<Rightarrow> phys_state" where
  "phys_heating cfg actions dt_min v =
     (if actions Heating
      then v\<lparr>p_temp := p_temp v + HEAT_RATE_C_PER_MIN cfg * dt_min\<rparr> else v)"

definition phys_vent :: "physics_config \<Rightarrow> actions \<Rightarrow> real \<Rightarrow> phys_state \<Rightarrow> phys_state" where
  "phys_vent cfg actions dt_min v =
     (if actions Ventilation \<or> actions Windows
      then v\<lparr>p_temp := p_temp v - VENT_COOL_RATE_C_PER_MIN cfg * dt_min,
             p_humidity := p_humidity v - VENT_HUM_DROP_PER_MIN cfg * dt_min\<rparr>
      else v)"

definition phys_watering :: "physics_config \<Rightarrow> actions \<Rightarrow> real \<Rightarrow> phys_state \<Rightarrow> phys_state" where
  "phys_watering cfg actions dt_min v =
     (if actions Watering
      then v\<lparr>p_soil := p_soil v + WATER_SOIL_RATE_PER_MIN cfg * dt_min,
             p_humidity := p_humidity v + 0.05 * dt_min\<rparr>
      else v)"

definition phys_misting :: "physics_config \<Rightarrow> actions \<Rightarrow> real \<Rightarrow> phys_state \<Rightarrow> phys_state" where
  "phys_misting cfg actions dt_min v =
     (if actions Misting
      then v\<lparr>p_humidity := p_humidity v + MIST_HUM_RATE_PER_MIN cfg * dt_min,
             p_temp := p_temp v - 0.02 * dt_min\<rparr>
      else v)"

definition phys_lighting :: "physics_config \<Rightarrow> actions \<Rightarrow> real \<Rightarrow> phys_state \<Rightarrow> phys_state" where
  "phys_lighting cfg actions dt_min v =
     (if actions Lighting
      then
        (let boost = (if p_light v < LIGHT_MIN cfg then 2.0 else 1.0)
         in v\<lparr>p_light := p_light v + LAMP_LUX_RATE_PER_MIN cfg * boost * dt_min\<rparr>)
      else v)"

definition phys_rain :: "phys_state \<Rightarrow> phys_state" where
  \<comment> \<open>\<^verbatim>\<open>v["rain"] = clamp(v.get("rain", 0.0), 0.0, 20.0)\<close>\<close>
  "phys_rain v =
     v\<lparr>p_rain := Some (clamp (case p_rain v of None \<Rightarrow> 0.0 | Some r \<Rightarrow> r) 0.0 20.0)\<rparr>"

definition phys_noise :: "noise \<Rightarrow> real \<Rightarrow> phys_state \<Rightarrow> phys_state" where
  "phys_noise nz dt_min v =
     v\<lparr>p_temp := p_temp v + noise_temp nz * dt_min,
       p_humidity := p_humidity v + noise_humidity nz * dt_min,
       p_light := p_light v + noise_light nz * dt_min,
       p_soil := p_soil v + noise_soil nz * dt_min\<rparr>"

definition phys_clamp :: "phys_state \<Rightarrow> phys_state" where
  "phys_clamp v =
     v\<lparr>p_temp := clamp (p_temp v) (- 20.0) 60.0,
       p_humidity := clamp (p_humidity v) 0.0 100.0,
       p_light := clamp (p_light v) 0.0 2500.0,
       p_soil := clamp (p_soil v) 0.0 100.0\<rparr>"

definition step ::
  "physics_config \<Rightarrow> noise \<Rightarrow> phys_state \<Rightarrow> actions \<Rightarrow> ambient \<Rightarrow> real \<Rightarrow> phys_state" where
  "step cfg nz state actions amb dt_min =
     (let v1 = phys_drift amb dt_min state;
          v2 = phys_heating cfg actions dt_min v1;
          v3 = phys_vent cfg actions dt_min v2;
          v4 = phys_watering cfg actions dt_min v3;
          v5 = phys_misting cfg actions dt_min v4;
          v6 = phys_lighting cfg actions dt_min v5;
          v7 = phys_rain v6;
          v8 = phys_noise nz dt_min v7
      in phys_clamp v8)"

section \<open>Verification\<close>

lemmas config_defs =
  TEMP_BAND_C_def HUM_BAND_PCT_def SOIL_BAND_PCT_def LIGHT_BAND_LUX_def
  TEMP_HYST_C_def HUM_HYST_PCT_def
  MIN_ON_VENT_SEC_def MIN_ON_WIN_SEC_def MIN_ON_WATER_SEC_def
  MIN_ON_MIST_SEC_def MIN_ON_LIGHT_SEC_def ALLOW_LIGHT_AT_NIGHT_def
  NATURAL_LIGHT_DAY_RANGE_def NATURAL_LIGHT_NIGHT_RANGE_def
  LAMP_LIGHT_TARGET_RANGE_def RAIN_MM_WHEN_FORECAST_def MIN_NIGHT_TEMP_C_def
  HEATING_RATE_C_PER_HOUR_def WATER_SOIL_PCT_PER_HOUR_def
  MIST_HUM_PCT_PER_HOUR_def VENT_LEAK_MULT_def

subsection \<open>Effect of each controller section on the actions, timers and reasons\<close>

lemma act_set_act [simp]: "act (set_act p k b now c) = (act c)(k := b)"
  by (simp add: set_act_def Let_def)

lemma reasons_set_act [simp]: "reasons (set_act p k b now c) = reasons c"
  by (simp add: set_act_def Let_def)

lemma ons_set_act:
  "ons (set_act p k b now c) =
     (if b \<and> \<not> p k then (ons c)(k := Some now)
      else if \<not> b \<and> p k then (ons c)(k := None) else ons c)"
  by (simp add: set_act_def Let_def)

lemma act_add_reason [simp]: "act (add_reason r c) = act c"
  by (simp add: add_reason_def)

lemma ons_add_reason [simp]: "ons (add_reason r c) = ons c"
  by (simp add: add_reason_def)

lemma reasons_add_reason [simp]: "reasons (add_reason r c) = reasons c @ [r]"
  by (simp add: add_reason_def)

lemma act_heating_rule:
  "act (heating_rule v tg c) =
     (act c)(Heating :=
        (if temp v < temp_target tg - TEMP_BAND_C then True
         else if temp v \<ge> temp_target tg + TEMP_HYST_C then False
         else act c Heating))"
  by (auto simp add: heating_rule_def Let_def)

lemma ons_heating_rule [simp]: "ons (heating_rule v tg c) = ons c"
  by (simp add: heating_rule_def Let_def)

lemma act_ventilation_rule_other:
  "k \<noteq> Ventilation \<Longrightarrow> act (ventilation_rule p v tg now c) k = act c k"
  by (simp add: ventilation_rule_def Let_def)

lemma act_windows_rule_other:
  "k \<noteq> Windows \<Longrightarrow> k \<noteq> RainProtection \<Longrightarrow> act (windows_rule p v tg rf now c) k = act c k"
  by (simp add: windows_rule_def Let_def)

lemma act_night_policy_other:
  "k \<noteq> Windows \<Longrightarrow> k \<noteq> Ventilation \<Longrightarrow> act (night_policy p v tg now c) k = act c k"
  by (simp add: night_policy_def Let_def)

lemma act_watering_rule_other:
  "k \<noteq> Watering \<Longrightarrow> act (watering_rule p v tg now c) k = act c k"
  by (simp add: watering_rule_def Let_def)

lemma act_misting_rule_other:
  "k \<noteq> Misting \<Longrightarrow> act (misting_rule p v tg now c) k = act c k"
  by (simp add: misting_rule_def Let_def)

lemma act_lighting_rule_other:
  "k \<noteq> Lighting \<Longrightarrow> act (lighting_rule p v tg now c) k = act c k"
  by (simp add: lighting_rule_def Let_def)

lemma act_fault_hints [simp]: "act (fault_hints f c) = act c"
  by (simp add: fault_hints_def Let_def)

lemma ons_fault_hints [simp]: "ons (fault_hints f c) = ons c"
  by (simp add: fault_hints_def Let_def)

lemma act_alarm_rule_other: "k \<noteq> Alarm \<Longrightarrow> act (alarm_rule c) k = act c k"
  by (simp add: alarm_rule_def)

lemma act_alarm_rule_Alarm: "act (alarm_rule c) Alarm = (reasons c \<noteq> [])"
  by (simp add: alarm_rule_def)

lemma ons_alarm_rule [simp]: "ons (alarm_rule c) = ons c"
  by (simp add: alarm_rule_def)

lemma reasons_alarm_rule [simp]: "reasons (alarm_rule c) = reasons c"
  by (simp add: alarm_rule_def)

lemmas act_other =
  act_ventilation_rule_other act_windows_rule_other act_night_policy_other
  act_watering_rule_other act_misting_rule_other act_lighting_rule_other
  act_alarm_rule_other

lemma windows_rule_rain:
  "act (windows_rule p v tg True now c) Windows = False
   \<and> act (windows_rule p v tg True now c) RainProtection = True"
  by (simp add: windows_rule_def Let_def)

lemma night_policy_Windows_False:
  "\<not> act c Windows \<Longrightarrow> \<not> act (night_policy p v tg now c) Windows"
  by (simp add: night_policy_def Let_def)

subsection \<open>Rain override\<close>

text \<open>
  C2. Whatever the controller's state (the stored actions and the stored activation
  times, also a Windows timer started at this very instant) and the other inputs are,
  a call of \<^verbatim>\<open>compute\<close> with \<^verbatim>\<open>rain_forecast\<close> true returns Windows off and
  RainProtection on, and stores the same two flags in the controller.
\<close>

theorem rain_override:
  "fst (fst (compute s v tg True f now)) Windows = False
   \<and> fst (fst (compute s v tg True f now)) RainProtection = True
   \<and> self_actions (snd (compute s v tg True f now)) Windows = False
   \<and> self_actions (snd (compute s v tg True f now)) RainProtection = True"
  by (simp add: compute_def compute_vars_def Let_def act_other windows_rule_rain
      night_policy_Windows_False)

theorem rain_override_witness:
  "fst (fst (compute
       \<lparr>self_actions = blank_actions(Windows := True),
        self_on_since = (\<lambda>k. None)(Windows := Some (at_clock 0 12 0 0))\<rparr>
       \<lparr>temp = 30, humidity = 50, light = 300, soil = 50, rain = 0\<rparr>
       \<lparr>temp_target = 24, hum_target = 60, light_min = 250, soil_min = 45\<rparr>
       True
       \<lparr>fan_fault = False, pump_fault = False, mister_fault = False\<rparr>
       (at_clock 0 12 0 0))) Windows = False
   \<and> fst (fst (compute
       \<lparr>self_actions = blank_actions(Windows := True),
        self_on_since = (\<lambda>k. None)(Windows := Some (at_clock 0 12 0 0))\<rparr>
       \<lparr>temp = 30, humidity = 50, light = 300, soil = 50, rain = 0\<rparr>
       \<lparr>temp_target = 24, hum_target = 60, light_min = 250, soil_min = 45\<rparr>
       True
       \<lparr>fan_fault = False, pump_fault = False, mister_fault = False\<rparr>
       (at_clock 0 12 0 0))) RainProtection = True"
  using rain_override
    [of "\<lparr>self_actions = blank_actions(Windows := True),
          self_on_since = (\<lambda>k. None)(Windows := Some (at_clock 0 12 0 0))\<rparr>"
        "\<lparr>temp = 30, humidity = 50, light = 300, soil = 50, rain = 0\<rparr>"
        "\<lparr>temp_target = 24, hum_target = 60, light_min = 250, soil_min = 45\<rparr>"
        "\<lparr>fan_fault = False, pump_fault = False, mister_fault = False\<rparr>"
        "at_clock 0 12 0 0"]
  by simp

subsection \<open>Clamp invariant of the environment step\<close>

lemmas stage_defs =
  forecast_indicator_def anomalies_def leakage_def night_floor_def light_convergence_def
  soil_dries_def heating_effect_def vent_effect_def watering_effect_def misting_effect_def
  lighting_effect_def final_clamp_def

lemma clamp_range: "a \<le> b \<Longrightarrow> a \<le> clamp x a b \<and> clamp x a b \<le> b"
  by (simp add: clamp_def)

lemma temp_final: "v_temp (final_clamp tv) = clamp (v_temp tv) (- 20) 60"
  by (simp add: final_clamp_def)
lemma hum_final: "v_hum (final_clamp tv) = clamp (v_hum tv) 5 98"
  by (simp add: final_clamp_def)
lemma lux_final: "v_lux (final_clamp tv) = clamp (v_lux tv) 0 2000"
  by (simp add: final_clamp_def)
lemma soil_final [simp]: "v_soil (final_clamp tv) = v_soil tv"
  by (simp add: final_clamp_def)
lemma rain_final [simp]: "v_rain (final_clamp tv) = v_rain tv"
  by (simp add: final_clamp_def)

lemma soil_lighting [simp]: "v_soil (lighting_effect a d tv) = v_soil tv"
  by (simp add: lighting_effect_def Let_def)
lemma soil_misting [simp]: "v_soil (misting_effect a d tv) = v_soil tv"
  by (simp add: misting_effect_def Let_def)
lemma soil_vent [simp]: "v_soil (vent_effect a d tv) = v_soil tv"
  by (simp add: vent_effect_def Let_def)
lemma soil_heating [simp]: "v_soil (heating_effect a d tv) = v_soil tv"
  by (simp add: heating_effect_def Let_def)
lemma soil_watering:
  "v_soil (watering_effect a d tv) =
     (if a Watering
      then clamp (v_soil tv + (if pump_fault (flt tv) then WATER_SOIL_PCT_PER_HOUR * d * 0.25
                               else WATER_SOIL_PCT_PER_HOUR * d)) 0 100
      else v_soil tv)"
  by (simp add: watering_effect_def Let_def)
lemma soil_dries_range: "0 \<le> v_soil (soil_dries d tv) \<and> v_soil (soil_dries d tv) \<le> 100"
  using clamp_range [of 0 100] by (simp add: soil_dries_def Let_def)

lemma rain_stage [simp]:
  "v_rain (lighting_effect a d tv) = v_rain tv"
  "v_rain (misting_effect a d tv) = v_rain tv"
  "v_rain (watering_effect a d tv) = v_rain tv"
  "v_rain (vent_effect a d tv) = v_rain tv"
  "v_rain (heating_effect a d tv) = v_rain tv"
  "v_rain (soil_dries d tv) = v_rain tv"
  "v_rain (light_convergence d tv) = v_rain tv"
  "v_rain (night_floor now tv) = v_rain tv"
  "v_rain (leakage d tv) = v_rain tv"
  by (simp_all add: stage_defs Let_def)

lemma rain_anomalies:
  "v_rain (anomalies m now d tv) =
     (if anomaly_active m now \<and> active_anomaly m = ''RAIN_FORECAST''
      then RAIN_MM_WHEN_FORECAST else v_rain tv)"
  by (simp add: anomalies_def Let_def)

lemma anomaly_active_auto_clear [simp]:
  "anomaly_active (auto_clear m now) now = anomaly_active m now"
  by (auto simp add: anomaly_active_def auto_clear_def clear_anomaly_def split: option.splits)

lemma active_anomaly_auto_clear:
  "anomaly_active m now \<Longrightarrow> active_anomaly (auto_clear m now) = active_anomaly m"
  by (auto simp add: anomaly_active_def auto_clear_def clear_anomaly_def split: option.splits)

lemma rain_apply_tick_vars:
  "v_rain (apply_tick_vars m vals a city season now mpt rf) =
     (if rf \<or> (anomaly_active m now \<and> active_anomaly m = ''RAIN_FORECAST'')
      then RAIN_MM_WHEN_FORECAST else 0)"
  by (simp add: apply_tick_vars_def Let_def rain_anomalies forecast_indicator_def
      active_anomaly_auto_clear cong: conj_cong)

lemma soil_apply_tick_vars_range:
  "0 \<le> v_soil (apply_tick_vars m vals a city season now mpt rf)
   \<and> v_soil (apply_tick_vars m vals a city season now mpt rf) \<le> 100"
  using soil_dries_range clamp_range [of 0 100]
  by (simp add: apply_tick_vars_def Let_def soil_watering)

lemma p_rain_phys_clamp [simp]: "p_rain (phys_clamp v) = p_rain v"
  by (simp add: phys_clamp_def)

lemma p_rain_phys_noise [simp]: "p_rain (phys_noise nz d v) = p_rain v"
  by (simp add: phys_noise_def)

lemma p_rain_phys_rain:
  "p_rain (phys_rain v) = Some (clamp (case p_rain v of None \<Rightarrow> 0 | Some r \<Rightarrow> r) 0 20)"
  by (simp add: phys_rain_def split: option.splits)

text \<open>
  C1. Whatever the model's state (also with an active anomaly such as HEAT_WAVE), the
  starting values, the actuator flags, the city, the season, the time and the tick
  length are, every field of the values that \<^verbatim>\<open>apply_tick\<close> returns lies in its
  range: temperature in [-20, 60], humidity in [0, 100], light in [0, 2500], soil in
  [0, 100] and rain in [0, 20]. The same holds for \<^verbatim>\<open>GreenhousePhysics.step\<close>, for
  every value of its constants and of the random noise.
\<close>

theorem clamp_invariant:
  "(let v' = fst (fst (apply_tick m vals a city season now mpt rf))
    in - 20 \<le> temp v' \<and> temp v' \<le> 60 \<and> 0 \<le> humidity v' \<and> humidity v' \<le> 100
       \<and> 0 \<le> light v' \<and> light v' \<le> 2500 \<and> 0 \<le> soil v' \<and> soil v' \<le> 100
       \<and> 0 \<le> rain v' \<and> rain v' \<le> 20)
   \<and> (let p' = step cfg nz st a amb dt_min
       in - 20 \<le> p_temp p' \<and> p_temp p' \<le> 60 \<and> 0 \<le> p_humidity p' \<and> p_humidity p' \<le> 100
          \<and> 0 \<le> p_light p' \<and> p_light p' \<le> 2500 \<and> 0 \<le> p_soil p' \<and> p_soil p' \<le> 100
          \<and> (case p_rain p' of None \<Rightarrow> False | Some r \<Rightarrow> 0 \<le> r \<and> r \<le> 20))"
proof -
  let ?tv = "apply_tick_vars m vals a city season now mpt rf"
  let ?p = "step cfg nz st a amb dt_min"
  have t: "- 20 \<le> v_temp ?tv \<and> v_temp ?tv \<le> 60"
    using clamp_range [of "- 20" 60] by (simp add: apply_tick_vars_def Let_def temp_final)
  have h: "5 \<le> v_hum ?tv \<and> v_hum ?tv \<le> 98"
    using clamp_range [of 5 98] by (simp add: apply_tick_vars_def Let_def hum_final)
  have l: "0 \<le> v_lux ?tv \<and> v_lux ?tv \<le> 2000"
    using clamp_range [of 0 2000] by (simp add: apply_tick_vars_def Let_def lux_final)
  have r: "0 \<le> v_rain ?tv \<and> v_rain ?tv \<le> 20"
    by (simp add: rain_apply_tick_vars RAIN_MM_WHEN_FORECAST_def)
  have s: "0 \<le> v_soil ?tv \<and> v_soil ?tv \<le> 100"
    by (rule soil_apply_tick_vars_range)
  have sim: "(let v' = fst (fst (apply_tick m vals a city season now mpt rf))
    in - 20 \<le> temp v' \<and> temp v' \<le> 60 \<and> 0 \<le> humidity v' \<and> humidity v' \<le> 100
       \<and> 0 \<le> light v' \<and> light v' \<le> 2500 \<and> 0 \<le> soil v' \<and> soil v' \<le> 100
       \<and> 0 \<le> rain v' \<and> rain v' \<le> 20)"
    using t h l r s by (simp add: apply_tick_def Let_def)
  have pt: "- 20 \<le> p_temp ?p \<and> p_temp ?p \<le> 60"
    using clamp_range [of "- 20" 60] by (simp add: step_def Let_def phys_clamp_def)
  have ph: "0 \<le> p_humidity ?p \<and> p_humidity ?p \<le> 100"
    using clamp_range [of 0 100] by (simp add: step_def Let_def phys_clamp_def)
  have pl: "0 \<le> p_light ?p \<and> p_light ?p \<le> 2500"
    using clamp_range [of 0 2500] by (simp add: step_def Let_def phys_clamp_def)
  have ps: "0 \<le> p_soil ?p \<and> p_soil ?p \<le> 100"
    using clamp_range [of 0 100] by (simp add: step_def Let_def phys_clamp_def)
  have pr: "case p_rain ?p of None \<Rightarrow> False | Some r \<Rightarrow> 0 \<le> r \<and> r \<le> 20"
    using clamp_range [of 0 20] by (simp add: step_def Let_def p_rain_phys_rain)
  have phys: "(let p' = step cfg nz st a amb dt_min
       in - 20 \<le> p_temp p' \<and> p_temp p' \<le> 60 \<and> 0 \<le> p_humidity p' \<and> p_humidity p' \<le> 100
          \<and> 0 \<le> p_light p' \<and> p_light p' \<le> 2500 \<and> 0 \<le> p_soil p' \<and> p_soil p' \<le> 100
          \<and> (case p_rain p' of None \<Rightarrow> False | Some r \<Rightarrow> 0 \<le> r \<and> r \<le> 20))"
    using pt ph pl ps pr by (simp add: Let_def)
  from sim phys show ?thesis by simp
qed

theorem clamp_invariant_witness:
  "(let v' = fst (fst (apply_tick
                (set_anomaly env_init ''HEAT_WAVE'' (at_clock 0 11 0 0) 3)
                \<lparr>temp = 1000, humidity = - 50, light = 99999, soil = 500, rain = 77\<rparr>
                (\<lambda>k. True) ''Plovdiv'' ''SUMMER'' (at_clock 0 12 0 0) 120 True))
    in - 20 \<le> temp v' \<and> temp v' \<le> 60 \<and> 0 \<le> humidity v' \<and> humidity v' \<le> 100
       \<and> 0 \<le> light v' \<and> light v' \<le> 2500 \<and> 0 \<le> soil v' \<and> soil v' \<le> 100
       \<and> 0 \<le> rain v' \<and> rain v' \<le> 20)
   \<and> (let p' = step
                \<lparr>HEAT_RATE_C_PER_MIN = 1, VENT_COOL_RATE_C_PER_MIN = 1,
                 WATER_SOIL_RATE_PER_MIN = 1, MIST_HUM_RATE_PER_MIN = 1,
                 VENT_HUM_DROP_PER_MIN = 1, LAMP_LUX_RATE_PER_MIN = 50, LIGHT_MIN = 250\<rparr>
                \<lparr>noise_temp = 0.02, noise_humidity = 0.05, noise_light = 0.8,
                 noise_soil = 0.03\<rparr>
                \<lparr>p_temp = 1000, p_humidity = - 50, p_light = 99999, p_soil = 500,
                 p_rain = Some 77\<rparr>
                (\<lambda>k. True)
                \<lparr>amb_temp = 45, amb_humidity = 30, light_day = 1800, light_night = 50,
                 is_day = True\<rparr>
                15
       in - 20 \<le> p_temp p' \<and> p_temp p' \<le> 60 \<and> 0 \<le> p_humidity p' \<and> p_humidity p' \<le> 100
          \<and> 0 \<le> p_light p' \<and> p_light p' \<le> 2500 \<and> 0 \<le> p_soil p' \<and> p_soil p' \<le> 100
          \<and> (case p_rain p' of None \<Rightarrow> False | Some r \<Rightarrow> 0 \<le> r \<and> r \<le> 20))"
  by (rule clamp_invariant)

subsection \<open>The rain indicator\<close>

lemma apply_tick_vars_rain:
  "apply_tick_vars m (vals\<lparr>rain := r\<rparr>) a city season now mpt rf
     = apply_tick_vars m vals a city season now mpt rf"
  by (simp add: apply_tick_vars_def Let_def forecast_indicator_def)

text \<open>
  C10. The rain field that \<^verbatim>\<open>apply_tick\<close> returns is \<^verbatim>\<open>RAIN_MM_WHEN_FORECAST\<close>
  (3.5) when \<^verbatim>\<open>rain_forecast\<close> is true or the RAIN_FORECAST anomaly is active at
  \<open>now\<close>, and 0 otherwise; the rain value of the input state has no influence on
  anything the call returns.
\<close>

theorem rain_determined:
  "rain (fst (fst (apply_tick m vals a city season now mpt rf))) =
     (if rf \<or> (anomaly_active m now \<and> active_anomaly m = ''RAIN_FORECAST'')
      then RAIN_MM_WHEN_FORECAST else 0.0)
   \<and> RAIN_MM_WHEN_FORECAST = 3.5
   \<and> apply_tick m (vals\<lparr>rain := r\<rparr>) a city season now mpt rf
       = apply_tick m vals a city season now mpt rf"
  by (simp add: apply_tick_def Let_def rain_apply_tick_vars apply_tick_vars_rain
      RAIN_MM_WHEN_FORECAST_def)

theorem rain_determined_witness:
  "rain (fst (fst (apply_tick env_init
       \<lparr>temp = 22, humidity = 55, light = 350, soil = 45, rain = 17\<rparr>
       blank_actions ''Ruse'' ''WINTER'' (at_clock 0 9 0 0) 15 False))) = 0
   \<and> rain (fst (fst (apply_tick env_init
       \<lparr>temp = 22, humidity = 55, light = 350, soil = 45, rain = 17\<rparr>
       blank_actions ''Ruse'' ''WINTER'' (at_clock 0 9 0 0) 15 True))) = 3.5"
  using
    rain_determined [of env_init
      "\<lparr>temp = 22, humidity = 55, light = 350, soil = 45, rain = 17\<rparr>"
      blank_actions "''Ruse''" "''WINTER''" "at_clock 0 9 0 0" 15 False]
    rain_determined [of env_init
      "\<lparr>temp = 22, humidity = 55, light = 350, soil = 45, rain = 17\<rparr>"
      blank_actions "''Ruse''" "''WINTER''" "at_clock 0 9 0 0" 15 True]
  by (simp add: anomaly_active_def env_init_def)

subsection \<open>Anomaly expiry\<close>

lemma auto_clear_clear_anomaly [simp]: "auto_clear (clear_anomaly m) now = clear_anomaly m"
  by (simp add: auto_clear_def clear_anomaly_def)

lemma auto_clear_expired:
  "u < now \<Longrightarrow> name \<noteq> ''NORMAL''
     \<Longrightarrow> auto_clear (m\<lparr>active_anomaly := name, anomaly_until := Some u\<rparr>) now
     = clear_anomaly m"
  by (simp add: auto_clear_def clear_anomaly_def)

lemma apply_tick_auto_clear:
  "apply_tick (auto_clear m now) vals a city season now mpt rf
     = apply_tick m vals a city season now mpt rf"
proof -
  have "auto_clear (auto_clear m now) now = auto_clear m now"
    by (simp add: auto_clear_def clear_anomaly_def)
  then show ?thesis
    by (simp add: apply_tick_def apply_tick_vars_def Let_def)
qed

lemma active_anomaly_apply_tick:
  "active_anomaly (snd (apply_tick m vals a city season now mpt rf))
     = active_anomaly (auto_clear m now)"
  by (simp add: apply_tick_def Let_def)

lemma anomaly_until_apply_tick:
  "anomaly_until (snd (apply_tick m vals a city season now mpt rf))
     = anomaly_until (auto_clear m now)"
  by (simp add: apply_tick_def Let_def)

lemma auto_clear_invariant:
  "active_anomaly (auto_clear m now) \<noteq> ''NORMAL''
     \<Longrightarrow> \<exists>u. anomaly_until (auto_clear m now) = Some u \<and> now \<le> u"
  by (auto simp add: auto_clear_def clear_anomaly_def split: if_splits option.splits)

lemma timedelta_hours_3: "timedelta_hours 3 = 10800000000"
  by (simp add: timedelta_hours_def Let_def)

text \<open>
  C9. After \<^verbatim>\<open>set_anomaly("HEAT_WAVE", t0, 3.0)\<close>, a call of \<^verbatim>\<open>apply_tick\<close> at any
  time strictly after \<open>t0\<close> plus three hours returns exactly what it returns for a model
  with no anomaly (so no anomaly modifier is applied), and leaves
  \<^verbatim>\<open>active_anomaly\<close> equal to NORMAL. After every call of \<^verbatim>\<open>apply_tick\<close> at \<open>now\<close>, an
  anomaly other than NORMAL is stored only together with an expiry time not before
  \<open>now\<close>. Setting an anomaly replaces the one set before.
\<close>

theorem anomaly_expiry:
  "(t0 + timedelta_hours 3 < now \<longrightarrow>
      apply_tick (set_anomaly m ''HEAT_WAVE'' t0 3) vals a city season now mpt rf
        = apply_tick (clear_anomaly m) vals a city season now mpt rf
      \<and> active_anomaly
          (snd (apply_tick (set_anomaly m ''HEAT_WAVE'' t0 3) vals a city season now mpt rf))
        = ''NORMAL'')
   \<and> (active_anomaly (snd (apply_tick m vals a city season now mpt rf)) \<noteq> ''NORMAL'' \<longrightarrow>
        (\<exists>u. anomaly_until (snd (apply_tick m vals a city season now mpt rf)) = Some u
              \<and> now \<le> u))
   \<and> set_anomaly (set_anomaly m a1 t1 d1) a2 t2 d2 = set_anomaly m a2 t2 d2
   \<and> timedelta_hours 3 = 3 * 3600 * 1000000"
proof -
  have exp: "t0 + timedelta_hours 3 < now \<Longrightarrow>
      auto_clear (set_anomaly m ''HEAT_WAVE'' t0 3) now = clear_anomaly m"
    by (simp add: set_anomaly_def auto_clear_expired)
  have 1: "t0 + timedelta_hours 3 < now \<Longrightarrow>
      apply_tick (set_anomaly m ''HEAT_WAVE'' t0 3) vals a city season now mpt rf
        = apply_tick (clear_anomaly m) vals a city season now mpt rf"
    using apply_tick_auto_clear [of "set_anomaly m ''HEAT_WAVE'' t0 3" now] exp by simp
  have 2: "t0 + timedelta_hours 3 < now \<Longrightarrow>
      active_anomaly
          (snd (apply_tick (set_anomaly m ''HEAT_WAVE'' t0 3) vals a city season now mpt rf))
        = ''NORMAL''"
    using exp by (simp add: active_anomaly_apply_tick clear_anomaly_def)
  have 3: "active_anomaly (snd (apply_tick m vals a city season now mpt rf)) \<noteq> ''NORMAL'' \<Longrightarrow>
        (\<exists>u. anomaly_until (snd (apply_tick m vals a city season now mpt rf)) = Some u
              \<and> now \<le> u)"
    using auto_clear_invariant [of m now]
    by (simp add: active_anomaly_apply_tick anomaly_until_apply_tick)
  have 4: "set_anomaly (set_anomaly m a1 t1 d1) a2 t2 d2 = set_anomaly m a2 t2 d2"
    by (simp add: set_anomaly_def)
  from 1 2 3 4 timedelta_hours_3 show ?thesis by simp
qed

theorem anomaly_expiry_witness:
  "at_clock 0 9 0 0 + timedelta_hours 3 < at_clock 0 12 1 0
   \<and> apply_tick (set_anomaly env_init ''HEAT_WAVE'' (at_clock 0 9 0 0) 3)
        \<lparr>temp = 22, humidity = 55, light = 350, soil = 45, rain = 0\<rparr>
        blank_actions ''Ruse'' ''SUMMER'' (at_clock 0 12 1 0) 15 False
      = apply_tick (clear_anomaly env_init)
        \<lparr>temp = 22, humidity = 55, light = 350, soil = 45, rain = 0\<rparr>
        blank_actions ''Ruse'' ''SUMMER'' (at_clock 0 12 1 0) 15 False
   \<and> active_anomaly (snd (apply_tick (set_anomaly env_init ''HEAT_WAVE'' (at_clock 0 9 0 0) 3)
        \<lparr>temp = 22, humidity = 55, light = 350, soil = 45, rain = 0\<rparr>
        blank_actions ''Ruse'' ''SUMMER'' (at_clock 0 12 1 0) 15 False)) = ''NORMAL''
   \<and> active_anomaly (snd (apply_tick (set_anomaly env_init ''HEAT_WAVE'' (at_clock 0 9 0 0) 3)
        \<lparr>temp = 22, humidity = 55, light = 350, soil = 45, rain = 0\<rparr>
        blank_actions ''Ruse'' ''SUMMER'' (at_clock 0 10 0 0) 15 False)) \<noteq> ''NORMAL''
   \<and> (\<exists>u. anomaly_until
             (snd (apply_tick (set_anomaly env_init ''HEAT_WAVE'' (at_clock 0 9 0 0) 3)
                \<lparr>temp = 22, humidity = 55, light = 350, soil = 45, rain = 0\<rparr>
                blank_actions ''Ruse'' ''SUMMER'' (at_clock 0 10 0 0) 15 False)) = Some u
           \<and> at_clock 0 10 0 0 \<le> u)"
proof -
  have h1: "at_clock 0 9 0 0 + timedelta_hours 3 < at_clock 0 12 1 0"
    by (simp add: timedelta_hours_3 at_clock_def)
  have h2: "active_anomaly
      (snd (apply_tick (set_anomaly env_init ''HEAT_WAVE'' (at_clock 0 9 0 0) 3)
        \<lparr>temp = 22, humidity = 55, light = 350, soil = 45, rain = 0\<rparr>
        blank_actions ''Ruse'' ''SUMMER'' (at_clock 0 10 0 0) 15 False)) \<noteq> ''NORMAL''"
    by (simp add: active_anomaly_apply_tick auto_clear_def set_anomaly_def timedelta_hours_3
        at_clock_def)
  show ?thesis
    using h1 h2
      anomaly_expiry [of "at_clock 0 9 0 0" "at_clock 0 12 1 0" env_init
        "\<lparr>temp = 22, humidity = 55, light = 350, soil = 45, rain = 0\<rparr>"
        blank_actions "''Ruse''" "''SUMMER''" 15 False]
      anomaly_expiry [of "at_clock 0 9 0 0" "at_clock 0 10 0 0"
        "set_anomaly env_init ''HEAT_WAVE'' (at_clock 0 9 0 0) 3"
        "\<lparr>temp = 22, humidity = 55, light = 350, soil = 45, rain = 0\<rparr>"
        blank_actions "''Ruse''" "''SUMMER''" 15 False]
    by blast
qed

subsection \<open>Pump fault and the soil increase\<close>

lemma soil_stage [simp]:
  "v_soil (light_convergence d tv) = v_soil tv"
  "v_soil (night_floor now tv) = v_soil tv"
  "v_soil (leakage d tv) = v_soil tv"
  "v_soil (forecast_indicator rf tv) = v_soil tv"
  by (simp_all add: stage_defs Let_def)

lemma soil_soil_dries:
  "v_soil (soil_dries d tv) = clamp (v_soil tv + (v_soil tv - 0.8) * (- 0.015 * d)) 0 100"
  by (simp add: soil_dries_def Let_def)

lemma soil_anomalies:
  "v_soil (anomalies m now d tv) =
     (if anomaly_active m now \<and> active_anomaly m = ''DRY_SOIL''
      then v_soil tv + (22.0 - v_soil tv) * clamp (0.22 * d) 0.0 0.5 else v_soil tv)"
  by (simp add: anomalies_def Let_def)

lemma flt_stage [simp]:
  "flt (vent_effect a d tv) = flt tv"
  "flt (heating_effect a d tv) = flt tv"
  "flt (soil_dries d tv) = flt tv"
  "flt (light_convergence d tv) = flt tv"
  "flt (night_floor now tv) = flt tv"
  "flt (leakage d tv) = flt tv"
  "flt (forecast_indicator rf tv) = flt tv"
  by (simp_all add: stage_defs Let_def)

lemma pump_fault_anomalies:
  "pump_fault (flt (anomalies m now d tv)) =
     (pump_fault (flt tv) \<or> (anomaly_active m now \<and> active_anomaly m = ''PUMP_FAULT''))"
  by (simp add: anomalies_def Let_def)

lemma m_faults_auto_clear [simp]: "m_faults (auto_clear m now) = m_faults m"
  by (simp add: auto_clear_def clear_anomaly_def)

lemma soil_apply_tick:
  "soil (fst (fst (apply_tick m vals a city season now mpt rf))) =
     (let d = tick_dt_hours mpt;
          s0 = (if anomaly_active m now \<and> active_anomaly m = ''DRY_SOIL''
                then soil vals + (22.0 - soil vals) * clamp (0.22 * d) 0.0 0.5 else soil vals);
          s1 = clamp (s0 + (s0 - 0.8) * (- 0.015 * d)) 0 100;
          pf = (pump_fault (m_faults m)
                \<or> (anomaly_active m now \<and> active_anomaly m = ''PUMP_FAULT''))
      in if a Watering
         then clamp (s1 + (if pf then WATER_SOIL_PCT_PER_HOUR * d * 0.25
                           else WATER_SOIL_PCT_PER_HOUR * d)) 0 100
         else s1)"
  by (simp add: apply_tick_def apply_tick_vars_def Let_def soil_watering soil_soil_dries
      soil_anomalies pump_fault_anomalies active_anomaly_auto_clear cong: conj_cong)

lemma anomaly_active_m_faults [simp]:
  "anomaly_active (m\<lparr>m_faults := f\<rparr>) now = anomaly_active m now"
  by (simp add: anomaly_active_def)

lemma tick_dt_hours_pos: "0 < tick_dt_hours mpt"
  by (simp add: tick_dt_hours_def)

lemma clamp_id: "a \<le> x \<Longrightarrow> x \<le> b \<Longrightarrow> clamp x a b = x"
  by (simp add: clamp_def)

text \<open>
  C8, as the code has it. Take two calls of \<^verbatim>\<open>apply_tick\<close> with Watering on that
  differ only in \<^verbatim>\<open>pump_fault\<close>, with no PUMP_FAULT anomaly active (it would set the
  flag in both). Let \<open>base\<close> be the soil value that the same call returns with Watering
  off, and \<open>inc\<close> be \<^verbatim>\<open>WATER_SOIL_PCT_PER_HOUR * dt_hours\<close>. Then the call without the
  fault returns the soil value \<open>clamp (base + inc)\<close>, the call with the fault returns
  \<open>clamp (base + 0.25 * inc)\<close>, and when \<open>base + inc\<close> does not exceed 100 the gain over
  \<open>base\<close> with the fault is exactly 25% of the gain without it.
\<close>

theorem pump_fault_quarter:
  assumes "a Watering"
    and "\<not> (anomaly_active m now \<and> active_anomaly m = ''PUMP_FAULT'')"
  shows
    "(let inc = WATER_SOIL_PCT_PER_HOUR * tick_dt_hours mpt;
          base = soil (fst (fst (apply_tick
                   (m\<lparr>m_faults := (m_faults m)\<lparr>pump_fault := False\<rparr>\<rparr>)
                   vals (a(Watering := False)) city season now mpt rf)));
          s_ok = soil (fst (fst (apply_tick
                   (m\<lparr>m_faults := (m_faults m)\<lparr>pump_fault := False\<rparr>\<rparr>)
                   vals a city season now mpt rf)));
          s_flt = soil (fst (fst (apply_tick
                   (m\<lparr>m_faults := (m_faults m)\<lparr>pump_fault := True\<rparr>\<rparr>)
                   vals a city season now mpt rf)))
      in s_ok = clamp (base + inc) 0 100
         \<and> s_flt = clamp (base + 0.25 * inc) 0 100
         \<and> (base + inc \<le> 100 \<longrightarrow> s_flt - base = 0.25 * (s_ok - base)))"
proof -
  define inc where "inc = WATER_SOIL_PCT_PER_HOUR * tick_dt_hours mpt"
  define base where "base = soil (fst (fst (apply_tick
                   (m\<lparr>m_faults := (m_faults m)\<lparr>pump_fault := False\<rparr>\<rparr>)
                   vals (a(Watering := False)) city season now mpt rf)))"
  define s_ok where "s_ok = soil (fst (fst (apply_tick
                   (m\<lparr>m_faults := (m_faults m)\<lparr>pump_fault := False\<rparr>\<rparr>)
                   vals a city season now mpt rf)))"
  define s_flt where "s_flt = soil (fst (fst (apply_tick
                   (m\<lparr>m_faults := (m_faults m)\<lparr>pump_fault := True\<rparr>\<rparr>)
                   vals a city season now mpt rf)))"
  have inc_pos: "0 < inc"
    using tick_dt_hours_pos [of mpt] by (simp add: inc_def WATER_SOIL_PCT_PER_HOUR_def)
  have base_range: "0 \<le> base \<and> base \<le> 100"
    using clamp_range [of 0 100] by (simp add: base_def soil_apply_tick Let_def)
  have ok: "s_ok = clamp (base + inc) 0 100"
    using assms by (auto simp add: s_ok_def base_def inc_def soil_apply_tick Let_def)
  have flt: "s_flt = clamp (base + 0.25 * inc) 0 100"
    using assms by (auto simp add: s_flt_def base_def inc_def soil_apply_tick Let_def)
  have quarter: "s_flt - base = 0.25 * (s_ok - base)" if "base + inc \<le> 100"
  proof -
    have "s_ok = base + inc"
      using that inc_pos base_range ok by (simp add: clamp_id)
    moreover have "s_flt = base + 0.25 * inc"
      using that inc_pos base_range flt by (simp add: clamp_id)
    ultimately show ?thesis by simp
  qed
  from ok flt quarter show ?thesis
    unfolding Let_def inc_def [symmetric] base_def [symmetric] s_ok_def [symmetric]
      s_flt_def [symmetric]
    by simp
qed

theorem pump_fault_quarter_witness:
  "(blank_actions(Watering := True)) Watering
   \<and> \<not> (anomaly_active env_init (at_clock 0 12 0 0) \<and> active_anomaly env_init = ''PUMP_FAULT'')
   \<and> soil (fst (fst (apply_tick (env_init\<lparr>m_faults := (m_faults env_init)\<lparr>pump_fault := True\<rparr>\<rparr>)
        \<lparr>temp = 22, humidity = 55, light = 350, soil = 50, rain = 0\<rparr>
        (blank_actions(Watering := True)) ''Ruse'' ''SUMMER'' (at_clock 0 12 0 0) 15 False)))
       - soil (fst (fst (apply_tick (env_init\<lparr>m_faults := (m_faults env_init)\<lparr>pump_fault := False\<rparr>\<rparr>)
        \<lparr>temp = 22, humidity = 55, light = 350, soil = 50, rain = 0\<rparr>
        (blank_actions(Watering := False)) ''Ruse'' ''SUMMER'' (at_clock 0 12 0 0) 15 False)))
     = 0.25 *
       (soil (fst (fst (apply_tick (env_init\<lparr>m_faults := (m_faults env_init)\<lparr>pump_fault := False\<rparr>\<rparr>)
        \<lparr>temp = 22, humidity = 55, light = 350, soil = 50, rain = 0\<rparr>
        (blank_actions(Watering := True)) ''Ruse'' ''SUMMER'' (at_clock 0 12 0 0) 15 False)))
        - soil (fst (fst (apply_tick (env_init\<lparr>m_faults := (m_faults env_init)\<lparr>pump_fault := False\<rparr>\<rparr>)
        \<lparr>temp = 22, humidity = 55, light = 350, soil = 50, rain = 0\<rparr>
        (blank_actions(Watering := False)) ''Ruse'' ''SUMMER'' (at_clock 0 12 0 0) 15 False))))"
proof -
  have h1: "(blank_actions(Watering := True)) Watering"
    by simp
  have h2: "\<not> (anomaly_active env_init (at_clock 0 12 0 0) \<and> active_anomaly env_init = ''PUMP_FAULT'')"
    by (simp add: env_init_def)
  have base: "soil (fst (fst (apply_tick (env_init\<lparr>m_faults := (m_faults env_init)\<lparr>pump_fault := False\<rparr>\<rparr>)
        \<lparr>temp = 22, humidity = 55, light = 350, soil = 50, rain = 0\<rparr>
        (blank_actions(Watering := False)) ''Ruse'' ''SUMMER'' (at_clock 0 12 0 0) 15 False))) = 49.8155"
    by (simp add: soil_apply_tick Let_def anomaly_active_def env_init_def tick_dt_hours_def
        clamp_def blank_actions_def)
  have inc: "WATER_SOIL_PCT_PER_HOUR * tick_dt_hours 15 = 1.5"
    by (simp add: WATER_SOIL_PCT_PER_HOUR_def tick_dt_hours_def)
  show ?thesis
    using h1 h2 pump_fault_quarter [of "blank_actions(Watering := True)" env_init
      "at_clock 0 12 0 0" 15
      "\<lparr>temp = 22, humidity = 55, light = 350, soil = 50, rain = 0\<rparr>" "''Ruse''" "''SUMMER''" False]
    by (simp add: Let_def base inc)
qed

text \<open>
  C8 as stated fails. With soil at 50, a 15-minute tick and Watering on, the soil rises
  by 1.3155 without the fault and by 0.1905 with it, which is not 25%: the soil also
  dries during the tick. With soil at 100 both calls return 100, so against the call
  with Watering off both gain the same 0.372: the result is capped at 100.
\<close>

theorem pump_fault_quarter_counterexample:
  "soil (fst (fst (apply_tick env_init
        \<lparr>temp = 22, humidity = 55, light = 350, soil = 50, rain = 0\<rparr>
        (blank_actions(Watering := True)) ''Ruse'' ''SUMMER'' (at_clock 0 12 0 0) 15 False))) = 51.3155
   \<and> soil (fst (fst (apply_tick (env_init\<lparr>m_faults := (m_faults env_init)\<lparr>pump_fault := True\<rparr>\<rparr>)
        \<lparr>temp = 22, humidity = 55, light = 350, soil = 50, rain = 0\<rparr>
        (blank_actions(Watering := True)) ''Ruse'' ''SUMMER'' (at_clock 0 12 0 0) 15 False))) = 50.1905
   \<and> soil (fst (fst (apply_tick (env_init\<lparr>m_faults := (m_faults env_init)\<lparr>pump_fault := True\<rparr>\<rparr>)
        \<lparr>temp = 22, humidity = 55, light = 350, soil = 50, rain = 0\<rparr>
        (blank_actions(Watering := True)) ''Ruse'' ''SUMMER'' (at_clock 0 12 0 0) 15 False))) - 50
       \<noteq> 0.25 * (soil (fst (fst (apply_tick env_init
        \<lparr>temp = 22, humidity = 55, light = 350, soil = 50, rain = 0\<rparr>
        (blank_actions(Watering := True)) ''Ruse'' ''SUMMER'' (at_clock 0 12 0 0) 15 False))) - 50)
   \<and> soil (fst (fst (apply_tick env_init
        \<lparr>temp = 22, humidity = 55, light = 350, soil = 100, rain = 0\<rparr>
        (blank_actions(Watering := True)) ''Ruse'' ''SUMMER'' (at_clock 0 12 0 0) 15 False))) = 100
   \<and> soil (fst (fst (apply_tick (env_init\<lparr>m_faults := (m_faults env_init)\<lparr>pump_fault := True\<rparr>\<rparr>)
        \<lparr>temp = 22, humidity = 55, light = 350, soil = 100, rain = 0\<rparr>
        (blank_actions(Watering := True)) ''Ruse'' ''SUMMER'' (at_clock 0 12 0 0) 15 False))) = 100
   \<and> soil (fst (fst (apply_tick env_init
        \<lparr>temp = 22, humidity = 55, light = 350, soil = 100, rain = 0\<rparr>
        (blank_actions(Watering := False)) ''Ruse'' ''SUMMER'' (at_clock 0 12 0 0) 15 False))) = 99.628"
  by (simp add: soil_apply_tick Let_def anomaly_active_def env_init_def tick_dt_hours_def
      clamp_def blank_actions_def WATER_SOIL_PCT_PER_HOUR_def)

subsection \<open>Night floor\<close>

lemma anomalies_inactive: "\<not> anomaly_active m now \<Longrightarrow> anomalies m now d tv = tv"
  by (simp add: anomalies_def)

lemma temp_stage [simp]:
  "v_temp (lighting_effect a d tv) = v_temp tv"
  "v_temp (watering_effect a d tv) = v_temp tv"
  "v_temp (soil_dries d tv) = v_temp tv"
  "v_temp (light_convergence d tv) = v_temp tv"
  "v_temp (forecast_indicator rf tv) = v_temp tv"
  by (simp_all add: stage_defs Let_def)

lemma temp_misting:
  "v_temp (misting_effect a d tv) = (if a Misting then v_temp tv - 0.25 * d else v_temp tv)"
  by (simp add: misting_effect_def Let_def)

lemma temp_vent_off:
  "\<not> a Ventilation \<Longrightarrow> \<not> a Windows \<Longrightarrow> v_temp (vent_effect a d tv) = v_temp tv"
  by (simp add: vent_effect_def)

lemma temp_heating:
  "v_temp (heating_effect a d tv) =
     (if a Heating then v_temp tv + clamp (HEATING_RATE_C_PER_HOUR * d) 0 6 else v_temp tv)"
  by (simp add: heating_effect_def)

lemma temp_night_floor:
  "v_temp (night_floor now tv) =
     (if is_night now then max (v_temp tv) MIN_NIGHT_TEMP_C else v_temp tv)"
  by (simp add: night_floor_def is_night_def Let_def)

lemma temp_leakage:
  "v_temp (leakage d tv) = v_temp tv + (out_t tv - v_temp tv) * clamp (0.06 * d) 0 0.12"
  by (simp add: leakage_def Let_def)

text \<open>
  The night floor does hold when nothing that cools runs after it: at night, with
  Ventilation, Windows and Misting off, the returned temperature is at least
  \<^verbatim>\<open>MIN_NIGHT_TEMP_C\<close>, whatever the Heating flag and the other inputs are.
\<close>

lemma night_floor_without_cooling:
  assumes "is_night now" "\<not> a Ventilation" "\<not> a Windows" "\<not> a Misting"
  shows "MIN_NIGHT_TEMP_C \<le> temp (fst (fst (apply_tick m vals a city season now mpt rf)))"
proof -
  let ?tv4 = "night_floor now (leakage (tick_dt_hours mpt)
      (anomalies (auto_clear m now) now (tick_dt_hours mpt)
        (forecast_indicator rf
          \<lparr>v_temp = temp vals, v_hum = humidity vals, v_lux = light vals,
           v_soil = soil vals, v_rain = rain vals,
           out_t = fst (outside city season now), out_h = snd (outside city season now),
           nat_lux = natural_light_lux season now, v_notes = Map.empty,
           flt = m_faults (auto_clear m now)\<rparr>)))"
  have floor: "MIN_NIGHT_TEMP_C \<le> v_temp ?tv4"
    using assms(1) by (simp add: temp_night_floor)
  have heat: "0 \<le> clamp (HEATING_RATE_C_PER_HOUR * tick_dt_hours mpt) 0 6"
    using clamp_range [of 0 6] by simp
  have "v_temp (apply_tick_vars m vals a city season now mpt rf)
          = clamp (v_temp ?tv4
              + (if a Heating then clamp (HEATING_RATE_C_PER_HOUR * tick_dt_hours mpt) 0 6 else 0))
              (- 20) 60"
    using assms
    by (simp add: apply_tick_vars_def Let_def temp_final temp_misting temp_vent_off temp_heating)
  moreover have "8 \<le> clamp x (- 20) 60" if "8 \<le> x" for x
    using that by (simp add: clamp_def)
  ultimately show ?thesis
    using floor heat by (simp add: apply_tick_def Let_def MIN_NIGHT_TEMP_C_def)
qed

lemma outside_temp_Ruse_WINTER: "fst (outside ''Ruse'' ''WINTER'' now) \<le> 4.7"
proof -
  have "sin ((hour_of_day now - 6.0) / 24.0 * 2 * pi) \<le> 1"
    by (rule sin_le_one)
  then show ?thesis
    by (simp add: outside_def Let_def city_season_outside_def CITY_SEASON_OUTSIDE_def)
qed

text \<open>
  C7 at a failing input: the greenhouse at -15 degrees, city Ruse, season WINTER, 02:00
  at night, a 15-minute tick, no anomaly, and only Misting on. The night floor raises
  the temperature to \<^verbatim>\<open>MIN_NIGHT_TEMP_C\<close> = 8, and the Misting section, which runs
  after it, then lowers it by \<open>0.25 * dt_hours\<close>: the call returns 7.9375.
\<close>

theorem night_floor_misting:
  "is_night (at_clock 0 2 0 0)
   \<and> temp (fst (fst (apply_tick env_init
        \<lparr>temp = - 15, humidity = 55, light = 350, soil = 45, rain = 0\<rparr>
        (blank_actions(Misting := True)) ''Ruse'' ''WINTER'' (at_clock 0 2 0 0) 15 False)))
      = 7.9375
   \<and> temp (fst (fst (apply_tick env_init
        \<lparr>temp = - 15, humidity = 55, light = 350, soil = 45, rain = 0\<rparr>
        (blank_actions(Misting := True)) ''Ruse'' ''WINTER'' (at_clock 0 2 0 0) 15 False)))
      < MIN_NIGHT_TEMP_C"
proof -
  let ?now = "at_clock 0 2 0 0"
  have night: "is_night ?now"
    by (simp add: is_night_def dt_hour_def at_clock_def)
  have inactive: "\<not> anomaly_active env_init ?now"
    by (simp add: anomaly_active_def env_init_def)
  have leak: "- 15 + (fst (outside ''Ruse'' ''WINTER'' ?now) - (- 15)) * clamp (0.06 * 0.25) 0 0.12
                \<le> 8"
    using outside_temp_Ruse_WINTER [of ?now] by (simp add: clamp_def)
  have "v_temp (apply_tick_vars env_init
        \<lparr>temp = - 15, humidity = 55, light = 350, soil = 45, rain = 0\<rparr>
        (blank_actions(Misting := True)) ''Ruse'' ''WINTER'' ?now 15 False)
      = clamp (max (- 15 + (fst (outside ''Ruse'' ''WINTER'' ?now) - (- 15))
                             * clamp (0.06 * 0.25) 0 0.12) 8 - 0.25 * 0.25) (- 20) 60"
    using night inactive
    by (simp add: apply_tick_vars_def Let_def temp_final temp_misting temp_vent_off
        temp_heating temp_night_floor temp_leakage anomalies_inactive forecast_indicator_def
        blank_actions_def tick_dt_hours_def MIN_NIGHT_TEMP_C_def)
  also have "\<dots> = clamp (8 - 0.25 * 0.25) (- 20) 60"
    using leak by (simp add: max_def)
  also have "\<dots> = 7.9375"
    by (simp add: clamp_def)
  finally have val: "temp (fst (fst (apply_tick env_init
        \<lparr>temp = - 15, humidity = 55, light = 350, soil = 45, rain = 0\<rparr>
        (blank_actions(Misting := True)) ''Ruse'' ''WINTER'' ?now 15 False))) = 7.9375"
    by (simp add: apply_tick_def Let_def)
  from night val show ?thesis
    by (simp add: MIN_NIGHT_TEMP_C_def)
qed

end
